theory Spec2Isabelle
  imports Complex_Main
begin

section \<open>Python primitives used by \<open>HealthCalculator\<close>\<close>

text \<open>
  The calculator works on Python numbers. They are idealised here as exact reals:
  every arithmetic operation of the source is the exact operation, and the only
  failure of arithmetic is the \<open>ZeroDivisionError\<close> that \<open>/\<close> raises on a zero divisor.
  Overflow, underflow and the representation error of binary floating point are outside
  this model.
\<close>

datatype py_error = ZeroDivisionError | OverflowError | ValueError

text \<open>Python's \<open>a / b\<close>: raises on a zero divisor.\<close>

definition py_truediv :: "real \<Rightarrow> real \<Rightarrow> py_error + real" where
  "py_truediv a b = (if b = 0 then Inl ZeroDivisionError else Inr (a / b))"

text \<open>
  Python's \<open>round\<close> rounds to the nearest value and sends a tie to the even neighbour.
\<close>

definition round_half_even :: "real \<Rightarrow> int" where
  "round_half_even x =
     (let f = floor x; d = x - of_int f
      in if d < 1 / 2 then f
         else if 1 / 2 < d then f + 1
         else if even f then f else f + 1)"

text \<open>\<open>round(x, 1)\<close>: one decimal place.\<close>

definition py_round1 :: "real \<Rightarrow> real" where
  "py_round1 x = of_int (round_half_even (x * 10)) / 10"



section \<open>The category table\<close>

text \<open>An upper bound of the table is a number or \<open>float('inf')\<close>.\<close>

datatype bound = Fin real | PosInf

fun le_bound :: "real \<Rightarrow> bound \<Rightarrow> bool" where
  "le_bound x (Fin b) = (x \<le> b)"
| "le_bound x PosInf = True"

text \<open>\<open>self.bmi_categories\<close>, in insertion order (the order \<open>items()\<close> yields).\<close>

definition bmi_categories :: "(string \<times> real \<times> bound) list" where
  "bmi_categories =
     [(''Underweight'', 0, Fin (184 / 10)),
      (''Normal weight'', 185 / 10, Fin (249 / 10)),
      (''Overweight'', 25, Fin (299 / 10)),
      (''Obesity Class I'', 30, Fin (349 / 10)),
      (''Obesity Class II'', 35, Fin (399 / 10)),
      (''Obesity Class III'', 40, PosInf)]"

section \<open>\<open>HealthCalculator\<close>\<close>

text \<open>
  \<open>calculate_bmi\<close>: the unit system is the string the caller passes; every string
  other than \<open>Metric (kg, cm)\<close> takes the imperial branch.
\<close>

definition calculate_bmi :: "real \<Rightarrow> real \<Rightarrow> string \<Rightarrow> py_error + real" where
  "calculate_bmi weight height unit_system =
     (if unit_system = ''Metric (kg, cm)'' then
        (let height_m = height / 100
         in case py_truediv weight (height_m ^ 2) of
              Inl e \<Rightarrow> Inl e
            | Inr bmi \<Rightarrow> Inr (py_round1 bmi))
      else
        (case py_truediv weight (height ^ 2) of
           Inl e \<Rightarrow> Inl e
         | Inr q \<Rightarrow> Inr (py_round1 (q * 703))))"

text \<open>
  \<open>get_bmi_category\<close>: the loop over the table returns the first category whose closed
  interval holds the value, and \<open>Unknown\<close> when the table is exhausted.
\<close>

fun find_category :: "(string \<times> real \<times> bound) list \<Rightarrow> real \<Rightarrow> string" where
  "find_category [] bmi = ''Unknown''"
| "find_category ((category, min_bmi, max_bmi) # rest) bmi =
     (if min_bmi \<le> bmi \<and> le_bound bmi max_bmi then category
      else find_category rest bmi)"

definition get_bmi_category :: "real \<Rightarrow> string" where
  "get_bmi_category bmi = find_category bmi_categories bmi"






section \<open>The specification's vocabulary\<close>

text \<open>
  The definitions of this section follow the words of the specification, not the code;
  the theorems below compare the code with them.
\<close>

text \<open>The BMI formulas of the specification, before rounding.\<close>

definition bmi_formula :: "real \<Rightarrow> real \<Rightarrow> string \<Rightarrow> real" where
  "bmi_formula weight height unit_system =
     (if unit_system = ''Metric (kg, cm)''
      then weight / (height / 100) ^ 2
      else weight / height ^ 2 * 703)"



text \<open>The six categories of the specification's data model.\<close>

definition category_names :: "string list" where
  "category_names =
     [''Underweight'', ''Normal weight'', ''Overweight'',
      ''Obesity Class I'', ''Obesity Class II'', ''Obesity Class III'']"

text \<open>The rows of the table whose closed interval holds \<open>bmi\<close>.\<close>

definition matching_categories :: "real \<Rightarrow> (string \<times> real \<times> bound) list" where
  "matching_categories bmi =
     filter (\<lambda>(category, min_bmi, max_bmi). min_bmi \<le> bmi \<and> le_bound bmi max_bmi)
       bmi_categories"

text \<open>The five open gaps between consecutive rows of the table.\<close>

definition in_gap :: "real \<Rightarrow> bool" where
  "in_gap bmi \<longleftrightarrow>
     184 / 10 < bmi \<and> bmi < 185 / 10 \<or>
     249 / 10 < bmi \<and> bmi < 25 \<or>
     299 / 10 < bmi \<and> bmi < 30 \<or>
     349 / 10 < bmi \<and> bmi < 35 \<or>
     399 / 10 < bmi \<and> bmi < 40"












section \<open>Properties of the Python primitives\<close>

lemma round_half_even_cases:
  "round_half_even x = floor x \<or> round_half_even x = floor x + 1"
  by (simp add: round_half_even_def Let_def)


lemma round_half_even_of_int: "round_half_even (of_int k) = k"
  by (simp add: round_half_even_def)

lemma round_half_even_mono:
  assumes "x \<le> y"
  shows "round_half_even x \<le> round_half_even y"
proof (cases "floor x = floor y")
  case True
  with assms show ?thesis
    unfolding round_half_even_def Let_def by auto
next
  case False
  with assms have "floor x + 1 \<le> floor y"
    using floor_mono [of x y] by linarith
  moreover have "round_half_even x \<le> floor x + 1"
    using round_half_even_cases [of x] by linarith
  moreover have "floor y \<le> round_half_even y"
    using round_half_even_cases [of y] by linarith
  ultimately show ?thesis by linarith
qed



lemma round_half_even_nonneg: "0 \<le> x \<Longrightarrow> 0 \<le> round_half_even x"
  using round_half_even_mono [of 0 x] round_half_even_of_int [of 0] by simp






section \<open>Properties of the category table\<close>

lemma unknown_outside_table: "bmi < 0 \<or> in_gap bmi \<Longrightarrow> get_bmi_category bmi = ''Unknown''"
  by (auto simp add: get_bmi_category_def bmi_categories_def in_gap_def)

lemma matching_empty_iff: "matching_categories bmi = [] \<longleftrightarrow> bmi < 0 \<or> in_gap bmi"
  by (auto simp add: matching_categories_def bmi_categories_def in_gap_def)

lemma matching_at_most_one: "length (matching_categories bmi) \<le> 1"
  by (simp add: matching_categories_def bmi_categories_def)

lemma matching_unique:
  "0 \<le> bmi \<Longrightarrow> \<not> in_gap bmi \<Longrightarrow> map fst (matching_categories bmi) = [get_bmi_category bmi]"
  by (auto simp add: matching_categories_def bmi_categories_def in_gap_def get_bmi_category_def) 

lemma get_bmi_category_names:
  "0 \<le> bmi \<Longrightarrow> \<not> in_gap bmi \<Longrightarrow> get_bmi_category bmi \<in> set category_names"
  by (auto simp add: bmi_categories_def in_gap_def get_bmi_category_def category_names_def) 

lemma unknown_not_a_category: "''Unknown'' \<notin> set category_names"
  by (simp add: category_names_def)

lemma tenth_not_in_gap: "\<not> in_gap (of_int k / 10)"
  by (auto simp add: in_gap_def)

section \<open>Properties of \<open>calculate_bmi\<close>\<close>

lemma calculate_bmi_eq:
  "height \<noteq> 0 \<Longrightarrow>
   calculate_bmi weight height unit_system = Inr (py_round1 (bmi_formula weight height unit_system))"
  by (simp add: calculate_bmi_def py_truediv_def bmi_formula_def Let_def)

lemma calculate_bmi_zero: "calculate_bmi weight 0 unit_system = Inl ZeroDivisionError"
  by (simp add: calculate_bmi_def py_truediv_def Let_def)



lemma bmi_formula_nonneg: "0 \<le> weight \<Longrightarrow> 0 \<le> bmi_formula weight height unit_system"
  by (simp add: bmi_formula_def)

section \<open>Properties of \<open>calculate_calories\<close>\<close>






section \<open>Claims about \<open>get_bmi_category\<close>\<close>

text \<open>
  The table leaves the open intervals between its rows uncovered: at 18.45 and at 24.95
  no row matches and the loop falls through to \<open>Unknown\<close>.
\<close>

theorem get_bmi_category_gap_counterexample:
  "get_bmi_category (1845 / 100) = ''Unknown'' \<and> get_bmi_category (2495 / 100) = ''Unknown''"
  by (simp add: get_bmi_category_def bmi_categories_def)

text \<open>
  Claim C2, as the code has it. No value matches two rows of the table. Every
  \<open>bmi \<ge> 0\<close> that lies outside the five open gaps \<open>(18.4, 18.5)\<close>, \<open>(24.9, 25)\<close>,
  \<open>(29.9, 30)\<close>, \<open>(34.9, 35)\<close> and \<open>(39.9, 40)\<close> matches exactly one row, and
  \<open>get_bmi_category\<close> returns that row's category, one of the six.
\<close>

theorem get_bmi_category_outside_gaps:
  "length (matching_categories bmi) \<le> 1 \<and>
   (0 \<le> bmi \<and> \<not> in_gap bmi \<longrightarrow>
      map fst (matching_categories bmi) = [get_bmi_category bmi] \<and>
      get_bmi_category bmi \<in> set category_names)"
  using matching_at_most_one matching_unique get_bmi_category_names by blast

theorem get_bmi_category_outside_gaps_witness:
  "(0::real) \<le> 242 / 10 \<and> \<not> in_gap (242 / 10) \<and>
   map fst (matching_categories (242 / 10)) = [''Normal weight''] \<and>
   get_bmi_category (242 / 10) = ''Normal weight'' \<and>
   length (matching_categories (242 / 10)) \<le> 1"
proof -
  have gap: "\<not> in_gap (242 / 10)" by (simp add: in_gap_def)
  have cat: "get_bmi_category (242 / 10) = ''Normal weight''"
    by (simp add: get_bmi_category_def bmi_categories_def)
  from get_bmi_category_outside_gaps [of "242 / 10"] gap cat
  show ?thesis by simp
qed

text \<open>
  Claim C9. A value falls in none of the six closed intervals exactly when it is negative
  or strictly inside one of the five gaps, and for every such value
  \<open>get_bmi_category\<close> returns the string \<open>Unknown\<close>.
\<close>

theorem get_bmi_category_unknown:
  "(matching_categories bmi = [] \<longleftrightarrow> bmi < 0 \<or> in_gap bmi) \<and>
   (bmi < 0 \<or> in_gap bmi \<longrightarrow> get_bmi_category bmi = ''Unknown'')"
  using matching_empty_iff unknown_outside_table by blast

theorem get_bmi_category_unknown_witness:
  "in_gap (2495 / 100) \<and> matching_categories (2495 / 100) = [] \<and>
   get_bmi_category (2495 / 100) = ''Unknown'' \<and>
   (- 1 :: real) < 0 \<and> get_bmi_category (- 1) = ''Unknown''"
proof -
  have gap: "in_gap (2495 / 100)" by (simp add: in_gap_def)
  have neg: "(- 1 :: real) < 0" by simp
  from get_bmi_category_unknown [of "2495 / 100"] get_bmi_category_unknown [of "- 1"] gap neg
  show ?thesis by simp
qed

text \<open>
  Claim C10. For every nonnegative whole number of tenths \<open>n / 10\<close>,
  \<open>get_bmi_category\<close> returns one of the six categories and not \<open>Unknown\<close>; and
  whenever \<open>calculate_bmi\<close> returns a value for a weight that is not negative, the
  category of that value is one of the six: the gaps cannot be reached through
  \<open>calculate_bmi\<close>.
\<close>

theorem rounded_bmi_never_unknown:
  "get_bmi_category (real n / 10) \<in> set category_names \<and>
   get_bmi_category (real n / 10) \<noteq> ''Unknown'' \<and>
   (0 \<le> weight \<and> calculate_bmi weight height unit_system = Inr bmi \<longrightarrow>
      get_bmi_category bmi \<in> set category_names \<and> get_bmi_category bmi \<noteq> ''Unknown'')"
proof -
  have tenths: "get_bmi_category (of_int k / 10) \<in> set category_names" if "0 \<le> k" for k
  proof (rule get_bmi_category_names)
    show "(0::real) \<le> of_int k / 10" using that by simp
    show "\<not> in_gap (of_int k / 10)" by (rule tenth_not_in_gap)
  qed
  have nat_case: "get_bmi_category (real n / 10) \<in> set category_names"
    using tenths [of "int n"] by simp
  have comp: "get_bmi_category bmi \<in> set category_names"
    if w: "0 \<le> weight" and r: "calculate_bmi weight height unit_system = Inr bmi"
  proof -
    have "height \<noteq> 0"
      using r calculate_bmi_zero [of weight unit_system] by auto
    with r have "bmi = py_round1 (bmi_formula weight height unit_system)"
      by (simp add: calculate_bmi_eq)
    then have b: "bmi = of_int (round_half_even (bmi_formula weight height unit_system * 10)) / 10"
      by (simp only: py_round1_def)
    have "0 \<le> round_half_even (bmi_formula weight height unit_system * 10)"
      using bmi_formula_nonneg [OF w] by (intro round_half_even_nonneg) simp
    from tenths [OF this] show ?thesis
      unfolding b .
  qed
  from nat_case comp unknown_not_a_category show ?thesis by metis
qed

theorem rounded_bmi_never_unknown_witness:
  "get_bmi_category (real 184 / 10) = ''Underweight'' \<and>
   get_bmi_category (real 185 / 10) = ''Normal weight'' \<and>
   (0::real) \<le> 70 \<and> calculate_bmi 70 170 ''Metric (kg, cm)'' = Inr (242 / 10) \<and>
   get_bmi_category (242 / 10) \<in> set category_names \<and>
   get_bmi_category (242 / 10) \<noteq> ''Unknown''"
proof -
  have c1: "get_bmi_category (real 184 / 10) = ''Underweight''"
    and c2: "get_bmi_category (real 185 / 10) = ''Normal weight''"
    by (simp_all add: get_bmi_category_def bmi_categories_def)
  have v: "calculate_bmi 70 170 ''Metric (kg, cm)'' = Inr (242 / 10)"
    by code_simp
  from rounded_bmi_never_unknown [of 184 70 170 "''Metric (kg, cm)''" "242 / 10"] c1 c2 v
  show ?thesis by simp
qed

section \<open>Claims about \<open>calculate_bmi\<close>\<close>









section \<open>Claims about \<open>calculate_calories\<close>\<close>






section \<open>Claims about \<open>calculate_ideal_weight\<close>\<close>



section \<open>Claims about the two unit systems\<close>






end
